theory Spec2Isabelle
  imports Main
begin

section \<open>The cache engine of go-cache\<close>

text \<open>
  The Go package keeps a \<^verbatim>\<open>map[K]item[V]\<close> behind a mutex. Every exported method
  takes the lock on entry and releases it on return, so a method is one atomic step on the
  store; the model is the sequential meaning of each method.

  Every call of \<^verbatim>\<open>time.Now()\<close> is a fresh reading of the host clock, and one method
  may read it more than once. The clock is therefore threaded with the store: \<open>clock c n\<close>
  is the value the \<open>n\<close>-th reading returns and \<open>reads c\<close> counts the readings taken so far.
  Instants and durations are integers (nanoseconds); \<^verbatim>\<open>t.Add(d)\<close> is \<open>t + d\<close> and
  \<^verbatim>\<open>t.After(u)\<close> is \<open>u < t\<close>.
\<close>

type_synonym Time = int
type_synonym Duration = int

text \<open>\<^verbatim>\<open>type item[V any] struct { value V; expiry time.Time }\<close>\<close>

record 'v item =
  value' :: 'v
  expiry :: Time

text \<open>\<^verbatim>\<open>type Cache[K comparable, V any] struct { items map[K]item[V]; mu sync.RWMutex }\<close>\<close>

record ('k, 'v) Cache =
  items :: "'k \<rightharpoonup> 'v item"
  clock :: "nat \<Rightarrow> Time"
  reads :: nat


subsection \<open>The host clock\<close>

definition time_Now :: "('k, 'v) Cache \<Rightarrow> Time \<times> ('k, 'v) Cache" where
  "time_Now c = (clock c (reads c), c\<lparr>reads := Suc (reads c)\<rparr>)"

text \<open>Two concrete clocks: one that stands still and one that advances by one at each reading.\<close>

definition frozenClock :: "Time \<Rightarrow> nat \<Rightarrow> Time" where
  "frozenClock t n = t"

definition tickingClock :: "Time \<Rightarrow> nat \<Rightarrow> Time" where
  "tickingClock t n = t + int n"

subsection \<open>utils.go\<close>

text \<open>\<^verbatim>\<open>func (i item[V]) isExpired() bool { return time.Now().After(i.expiry) }\<close>\<close>

definition isExpired :: "'v item \<Rightarrow> ('k, 'v) Cache \<Rightarrow> bool \<times> ('k, 'v) Cache" where
  "isExpired i c = (case time_Now c of (now, c') \<Rightarrow> (expiry i < now, c'))"

text \<open>
  \<^verbatim>\<open>c.items[key] = item[V]{ value: data, expiry: time.Now().Add(ttl) }\<close>
\<close>

definition set' :: "'k \<Rightarrow> 'v \<Rightarrow> Duration \<Rightarrow> ('k, 'v) Cache \<Rightarrow> ('k, 'v) Cache" where
  "set' key data ttl c =
     (case time_Now c of (now, c') \<Rightarrow>
        c'\<lparr>items := (items c')(key \<mapsto> \<lparr>value' = data, expiry = now + ttl\<rparr>)\<rparr>)"

text \<open>\<^verbatim>\<open>delete(c.items, key)\<close>\<close>

definition delete :: "'k \<Rightarrow> ('k, 'v) Cache \<Rightarrow> ('k, 'v) Cache" where
  "delete key c = c\<lparr>items := (items c)(key := None)\<rparr>"

subsection \<open>The exported methods\<close>

text \<open>\<^verbatim>\<open>New\<close> makes the empty store; the argument is the host clock the cache will read.\<close>

definition New :: "(nat \<Rightarrow> Time) \<Rightarrow> ('k, 'v) Cache" where
  "New clk = \<lparr>items = Map.empty, clock = clk, reads = 0\<rparr>"

definition Set :: "'k \<Rightarrow> 'v \<Rightarrow> Duration \<Rightarrow> ('k, 'v) Cache \<Rightarrow> ('k, 'v) Cache" where
  "Set key data ttl c = set' key data ttl c"



text \<open>
  \<^verbatim>\<open>i, found := c.items[key]\<close> yields the zero item when the key is missing, so
  \<^verbatim>\<open>i.value\<close> is then the zero value of \<^verbatim>\<open>V\<close>. The zero value is the first
  argument \<open>zv\<close> of \<open>Get\<close> and \<open>Pop\<close>.
\<close>

definition Get :: "'v \<Rightarrow> 'k \<Rightarrow> ('k, 'v) Cache \<Rightarrow> ('v \<times> bool) \<times> ('k, 'v) Cache" where
  "Get zv key c =
     (case items c key of
        None \<Rightarrow> ((zv, False), c)
      | Some i \<Rightarrow>
          (case isExpired i c of (expired, c1) \<Rightarrow>
             if expired then ((value' i, False), delete key c1)
             else ((value' i, True), c1)))"

definition Pop :: "'v \<Rightarrow> 'k \<Rightarrow> ('k, 'v) Cache \<Rightarrow> ('v \<times> bool) \<times> ('k, 'v) Cache" where
  "Pop zv key c =
     (case items c key of
        None \<Rightarrow> ((zv, False), c)
      | Some i \<Rightarrow>
          (case isExpired i (delete key c) of (expired, c1) \<Rightarrow>
             if expired then ((value' i, False), c1)
             else ((value' i, True), c1)))"





text \<open>\<^verbatim>\<open>clear(c.items)\<close>\<close>

definition Clear :: "('k, 'v) Cache \<Rightarrow> ('k, 'v) Cache" where
  "Clear c = c\<lparr>items := Map.empty\<rparr>"

subsection \<open>Example caches\<close>

text \<open>One entry, already expired when the clock is read next (expiry 1, clock at 5).\<close>

definition expiredCache :: "(string, int) Cache" where
  "expiredCache =
     \<lparr>items = [''key1'' \<mapsto> \<lparr>value' = 42, expiry = 1\<rparr>], clock = tickingClock 5, reads = 0\<rparr>"

text \<open>One entry that is still live (expiry 100, clock at 5).\<close>

definition liveCache :: "(string, int) Cache" where
  "liveCache =
     \<lparr>items = [''key1'' \<mapsto> \<lparr>value' = 40, expiry = 100\<rparr>], clock = tickingClock 5, reads = 0\<rparr>"



section \<open>Properties\<close>

subsection \<open>What each helper computes\<close>

lemma isExpired_eq:
  "isExpired i c = (expiry i < clock c (reads c), c\<lparr>reads := Suc (reads c)\<rparr>)"
  by (simp add: isExpired_def time_Now_def)

lemma set'_eq:
  "set' key data ttl c =
     c\<lparr>reads := Suc (reads c),
       items := (items c)(key \<mapsto> \<lparr>value' = data, expiry = clock c (reads c) + ttl\<rparr>)\<rparr>"
  by (simp add: set'_def time_Now_def)

lemma Get_absent: "items c key = None \<Longrightarrow> Get zv key c = ((zv, False), c)"
  by (simp add: Get_def)

lemma Get_expired:
  "items c key = Some i \<Longrightarrow> expiry i < clock c (reads c) \<Longrightarrow>
   Get zv key c = ((value' i, False), delete key (c\<lparr>reads := Suc (reads c)\<rparr>))"
  by (simp add: Get_def isExpired_eq)

lemma Get_live:
  "items c key = Some i \<Longrightarrow> clock c (reads c) \<le> expiry i \<Longrightarrow>
   Get zv key c = ((value' i, True), c\<lparr>reads := Suc (reads c)\<rparr>)"
  by (simp add: Get_def isExpired_eq)

lemma Pop_present:
  "items c key = Some i \<Longrightarrow>
   Pop zv key c =
     ((value' i, clock c (reads c) \<le> expiry i), delete key (c\<lparr>reads := Suc (reads c)\<rparr>))"
  by (simp add: Pop_def isExpired_eq delete_def not_less)

lemma Get_after_Set:
  "fst (Get zv k (Set k v ttl c)) = (v, clock c (Suc (reads c)) \<le> clock c (reads c) + ttl)"
  by (simp add: Get_def Set_def set'_eq isExpired_eq not_less)

subsection \<open>Reading an expired entry\<close>

text \<open>
  Both \<open>Get\<close> and \<open>Pop\<close> delete an expired entry and answer found = false; this part
  holds for every expired entry.
\<close>

lemma expired_read_removes_entry:
  assumes "items c key = Some i" and "expiry i < clock c (reads c)"
  shows "snd (fst (Get zv key c)) = False \<and> items (snd (Get zv key c)) = (items c)(key := None)
       \<and> snd (fst (Pop zv key c)) = False \<and> items (snd (Pop zv key c)) = (items c)(key := None)"
  using assms by (simp add: Get_expired Pop_present delete_def)

text \<open>
  C1. For a key whose entry is expired, \<open>Get\<close> and \<open>Pop\<close> should return not-found with a
  value component that carries no stored data. The code returns \<^verbatim>\<open>i.value\<close> of the
  entry it has just found: on the cache holding \<open>key1 \<mapsto> (42, expiry 1)\<close> with the clock at
  5, both calls answer \<open>(42, false)\<close>, the dead stored value, where the zero value is \<open>0\<close>.
\<close>

theorem expired_read_surfaces_stored_value:
  "fst (Get 0 ''key1'' expiredCache) = (42, False)
   \<and> fst (Pop 0 ''key1'' expiredCache) = (42, False)"
  by (simp add: expiredCache_def Get_def Pop_def isExpired_eq delete_def tickingClock_def)

subsection \<open>When an entry is expired\<close>

text \<open>
  C2. An entry should be expired as soon as \<open>expiry \<le> now\<close>, so that \<open>Set\<close> with a ttl
  of 0 followed by \<open>Get\<close> returns not-found, as \<^verbatim>\<open>TestCacheSetAndGet\<close> asserts for
  \<^verbatim>\<open>c.Set("key1", 10, 0*time.Second)\<close>. The comparison \<^verbatim>\<open>After\<close> is strict: when
  the clock shows the same instant at both readings, the code returns \<open>(10, true)\<close>, and
  the item with expiry 5 is not expired at instant 5.
\<close>

theorem zero_ttl_entry_read_as_live:
  "fst (Get 0 ''key1'' (Set ''key1'' 10 0 (New (frozenClock 5)))) = (10::int, True)
   \<and> expiry \<lparr>value' = 10::int, expiry = 5\<rparr>
        \<le> clock (New (frozenClock 5) :: (string, int) Cache) 0
   \<and> fst (isExpired \<lparr>value' = 10::int, expiry = 5\<rparr>
        (New (frozenClock 5) :: (string, int) Cache)) = False"
  by (simp add: Get_after_Set isExpired_eq New_def frozenClock_def)

subsection \<open>Add\<close>




subsection \<open>Replace\<close>




subsection \<open>Pop\<close>

text \<open>
  C5. Whatever the store held for the key (nothing, a live entry or an expired one), after
  \<open>Pop\<close> the key is absent, and a following \<open>Get\<close> returns not-found.
\<close>

theorem Pop_leaves_key_absent:
  "items (snd (Pop zv key c)) key = None
   \<and> fst (Get zv key (snd (Pop zv key c))) = (zv, False)"
proof -
  have absent: "items (snd (Pop zv key c)) key = None"
  proof (cases "items c key")
    case None
    then show ?thesis by (simp add: Pop_def)
  next
    case (Some i)
    then show ?thesis by (simp add: Pop_present delete_def)
  qed
  then show ?thesis by (simp add: Get_absent)
qed

subsection \<open>Get on a live entry\<close>

text \<open>
  C6. For a key holding a live entry, \<open>Get\<close> returns the stored value with found = true
  and leaves every entry of the store, this one included, as it was: value and expiry are
  not touched, so the TTL is not refreshed. Only the clock has been read once.
\<close>

theorem Get_live_untouched:
  assumes "items c key = Some i" and "clock c (reads c) \<le> expiry i"
  shows "fst (Get zv key c) = (value' i, True) \<and> items (snd (Get zv key c)) = items c
         \<and> snd (Get zv key c) = c\<lparr>reads := Suc (reads c)\<rparr>"
  using assms by (simp add: Get_live)

theorem Get_live_untouched_witness:
  "items liveCache ''key1'' = Some \<lparr>value' = 40, expiry = 100\<rparr>
   \<and> clock liveCache (reads liveCache) \<le> expiry \<lparr>value' = 40::int, expiry = 100\<rparr>
   \<and> fst (Get 0 ''key1'' liveCache) = (40, True)
   \<and> items (snd (Get 0 ''key1'' liveCache)) = items liveCache"
proof -
  have h1: "items liveCache ''key1'' = Some \<lparr>value' = 40, expiry = 100\<rparr>"
    by (simp add: liveCache_def)
  have h2: "clock liveCache (reads liveCache) \<le> expiry \<lparr>value' = 40::int, expiry = 100\<rparr>"
    by (simp add: liveCache_def tickingClock_def)
  show ?thesis using h1 h2 Get_live_untouched [OF h1 h2, of 0] by simp
qed

subsection \<open>RemoveExpired\<close>








subsection \<open>Clear\<close>

text \<open>
  C8. After \<open>Clear\<close> the store is empty, and \<open>Get\<close> on any key, whatever it held before,
  returns not-found.
\<close>

theorem Clear_empties:
  "items (Clear c) = Map.empty \<and> fst (Get zv key (Clear c)) = (zv, False)"
  by (simp add: Clear_def Get_def)

subsection \<open>Reading a key that has no entry\<close>

text \<open>
  C10. For a key with no entry, \<open>Get\<close> and \<open>Pop\<close> return the zero value of the value type
  with found = false, and leave the cache exactly as it was (the clock is not even read).
\<close>

theorem absent_key_read:
  assumes "items c key = None"
  shows "Get zv key c = ((zv, False), c) \<and> Pop zv key c = ((zv, False), c)"
  using assms by (simp add: Get_def Pop_def)

theorem absent_key_read_witness:
  "items (New (frozenClock 5) :: (string, int) Cache) ''key1'' = None
   \<and> Get 0 ''key1'' (New (frozenClock 5) :: (string, int) Cache) = ((0, False), New (frozenClock 5))
   \<and> Pop 0 ''key1'' (New (frozenClock 5) :: (string, int) Cache) = ((0, False), New (frozenClock 5))"
proof -
  have h: "items (New (frozenClock 5) :: (string, int) Cache) ''key1'' = None"
    by (simp add: New_def)
  show ?thesis using h absent_key_read [OF h, of 0] by simp
qed

end
